theory Spec2Isabelle
  imports Complex_Main "HOL-Library.Sublist"
begin

section \<open>Python values used by the program\<close>

text \<open>
  A Python \<open>str\<close> is modelled as a \<open>string\<close> holding its UTF-8 bytes. The case
  mappings and the whitespace test act on the ASCII range; bytes from 128 upwards (the
  encodings of non-ASCII code points) are left as they are, so Unicode case mapping and
  Unicode whitespace are outside the model.
\<close>

datatype exn =
    ValueError string
  | KeyError string
  | IndexError string
  | AttributeError string
  | EOFError string
  | ValidationError string
  | APIError string

text \<open>\<open>str(e)\<close>: the message of an exception; a \<open>KeyError\<close> shows the repr of its key.\<close>

fun str_exn :: "exn \<Rightarrow> string" where
  "str_exn (ValueError m) = m"
| "str_exn (KeyError k) = [CHR 0x27] @ k @ [CHR 0x27]"
| "str_exn (IndexError m) = m"
| "str_exn (AttributeError m) = m"
| "str_exn (EOFError m) = m"
| "str_exn (ValidationError m) = m"
| "str_exn (APIError m) = m"

definition nl :: string where
  "nl = [CHR 0x0A]"

definition py_isspace :: "char \<Rightarrow> bool" where
  "py_isspace c = (let n = (of_char c :: nat) in (9 \<le> n \<and> n \<le> 13) \<or> (28 \<le> n \<and> n \<le> 32))"

definition py_upper_char :: "char \<Rightarrow> char" where
  "py_upper_char c = (let n = (of_char c :: nat) in if 97 \<le> n \<and> n \<le> 122 then char_of (n - 32) else c)"

definition py_lower_char :: "char \<Rightarrow> char" where
  "py_lower_char c = (let n = (of_char c :: nat) in if 65 \<le> n \<and> n \<le> 90 then char_of (n + 32) else c)"

text \<open>\<open>s.strip()\<close>, \<open>s.upper()\<close>, \<open>s.capitalize()\<close>, \<open>s.startswith(p)\<close>.\<close>

definition strip :: "string \<Rightarrow> string" where
  "strip s = rev (dropWhile py_isspace (rev (dropWhile py_isspace s)))"

definition upper :: "string \<Rightarrow> string" where
  "upper s = map py_upper_char s"

fun capitalize :: "string \<Rightarrow> string" where
  "capitalize [] = []"
| "capitalize (c # cs) = py_upper_char c # map py_lower_char cs"

definition startswith :: "string \<Rightarrow> string \<Rightarrow> bool" where
  "startswith s p = prefix p s"

text \<open>\<open>x or d\<close> on strings: the empty string is falsy.\<close>

definition or_else :: "string \<Rightarrow> string \<Rightarrow> string" where
  "or_else x d = (if x = [] then d else x)"

text \<open>\<open>str(n)\<close> for a non-negative integer.\<close>

fun str_nat :: "nat \<Rightarrow> string" where
  "str_nat n = (if n < 10 then [char_of (48 + n)] else str_nat (n div 10) @ [char_of (48 + n mod 10)])"

declare str_nat.simps [simp del]

text \<open>Sequencing of computations that may raise: the first exception propagates.\<close>

definition bind :: "exn + 'a \<Rightarrow> ('a \<Rightarrow> exn + 'b) \<Rightarrow> exn + 'b" where
  "bind r f = (case r of Inl e \<Rightarrow> Inl e | Inr x \<Rightarrow> f x)"

text \<open>\<open>d[k]\<close> on a dict with string keys.\<close>

definition getitem :: "(string \<rightharpoonup> 'v) \<Rightarrow> string \<Rightarrow> exn + 'v" where
  "getitem d k = (case d k of None \<Rightarrow> Inl (KeyError k) | Some v \<Rightarrow> Inr v)"

section \<open>JSON values and the response schema of \<open>app.py\<close>\<close>

datatype json =
    JNull
  | JBool bool
  | JNum int
  | JStr string
  | JArr "json list"
  | JObj "(string \<times> json) list"

text \<open>A JSON object read as a dict: the last occurrence of a key wins.\<close>

definition obj_get :: "(string \<times> json) list \<Rightarrow> string \<Rightarrow> json option" where
  "obj_get kvs k = map_of (rev kvs) k"

text \<open>
  The declared field kinds of a pydantic model: \<open>str\<close>, and \<open>List[str]\<close> with the
  optional \<open>min_items\<close> and \<open>max_items\<close> of its \<open>Field\<close>.
\<close>

definition validate_str :: "string \<Rightarrow> json \<Rightarrow> exn + string" where
  "validate_str field v =
     (case v of JStr s \<Rightarrow> Inr s
      | _ \<Rightarrow> Inl (ValidationError (field @ '': Input should be a valid string'')))"

fun validate_items :: "string \<Rightarrow> json list \<Rightarrow> exn + string list" where
  "validate_items field [] = Inr []"
| "validate_items field (v # vs) =
     bind (validate_str field v) (\<lambda>s.
     bind (validate_items field vs) (\<lambda>ss. Inr (s # ss)))"

definition validate_list_str ::
  "string \<Rightarrow> nat option \<Rightarrow> nat option \<Rightarrow> json \<Rightarrow> exn + string list" where
  "validate_list_str field min_items max_items v =
     (case v of
        JArr vs \<Rightarrow>
          bind (validate_items field vs) (\<lambda>ss.
               if (case min_items of None \<Rightarrow> False | Some lo \<Rightarrow> length ss < lo)
               then Inl (ValidationError (field @ '': List should have at least '' @
                      str_nat (case min_items of None \<Rightarrow> 0 | Some lo \<Rightarrow> lo) @ '' items''))
               else if (case max_items of None \<Rightarrow> False | Some hi \<Rightarrow> hi < length ss)
               then Inl (ValidationError (field @ '': List should have at most '' @
                      str_nat (case max_items of None \<Rightarrow> 0 | Some hi \<Rightarrow> hi) @ '' items''))
               else Inr ss)
      | _ \<Rightarrow> Inl (ValidationError (field @ '': Input should be a valid list'')))"

definition required :: "(string \<times> json) list \<Rightarrow> string \<Rightarrow> exn + json" where
  "required kvs field =
     (case obj_get kvs field of
        None \<Rightarrow> Inl (ValidationError (field @ '': Field required''))
      | Some v \<Rightarrow> Inr v)"

record ChampionRecommendations =
  champions :: "string list"
  reasoning :: string
  key_threats :: "string list"

text \<open>
  \<open>class ChampionRecommendations(BaseModel)\<close>: \<open>champions: List[str]\<close> with
  \<open>min_items=3, max_items=5\<close>, \<open>reasoning: str\<close>, \<open>key_threats: List[str]\<close>. The
  function is the validation that pydantic derives from this declaration, applied to
  the parsed content of a response; fields are checked in declaration order and the
  message names the first field that fails.
\<close>

definition ChampionRecommendations_validate :: "json \<Rightarrow> exn + ChampionRecommendations" where
  "ChampionRecommendations_validate v =
     (case v of
        JObj kvs \<Rightarrow>
          bind (required kvs ''champions'') (\<lambda>c.
          bind (validate_list_str ''champions'' (Some 3) (Some 5) c) (\<lambda>cs.
          bind (required kvs ''reasoning'') (\<lambda>r.
          bind (validate_str ''reasoning'' r) (\<lambda>rs.
          bind (required kvs ''key_threats'') (\<lambda>k.
          bind (validate_list_str ''key_threats'' None None k) (\<lambda>ks.
            Inr \<lparr>champions = cs, reasoning = rs, key_threats = ks\<rparr>))))))
      | _ \<Rightarrow> Inl (ValidationError ''Input should be an object''))"

section \<open>The prompt builder of \<open>app.py\<close>\<close>

text \<open>
  The literal pieces of the f-string in \<open>create_prompt\<close>, cut at its eight
  placeholders.
\<close>

definition tmpl_top :: string where
  "tmpl_top = ''You are an expert League of Legends analyst specializing in champion select strategy.\<newline>\<newline>ENEMY TEAM COMPOSITION:\<newline>- Top: ''"

definition tmpl_jungle :: string where
  "tmpl_jungle = ''\<newline>- Jungle: ''"

definition tmpl_mid :: string where
  "tmpl_mid = ''\<newline>- Mid: ''"

definition tmpl_adc :: string where
  "tmpl_adc = ''\<newline>- ADC: ''"

definition tmpl_support :: string where
  "tmpl_support = ''\<newline>- Support: ''"

definition tmpl_role :: string where
  "tmpl_role = ''\<newline>\<newline>YOUR ROLE: ''"

definition tmpl_task :: string where
  "tmpl_task = ''\<newline>\<newline>TASK:\<newline>Recommend 3-5 champions for the ''"

definition tmpl_criteria :: string where
  "tmpl_criteria = '' role that counter this enemy team composition.\<newline>\<newline>ANALYSIS CRITERIA:\<newline>1. **Lane Matchup**: How well does the champion perform in direct lane matchups?\<newline>2. **Damage Type**: Consider AP/AD balance (avoid same damage type as team)\<newline>3. **Team Composition**: Does the enemy have tanks, assassins, poke, engage, disengage?\<newline>4. **Win Conditions**: Identify what the enemy wants to do and how to stop it\<newline>5. **Scaling**: Consider early/mid/late game power spikes\<newline>6. **Crowd Control**: Does your team need more CC or do you need to avoid CC?\<newline>7. **Mobility**: Can you match enemy mobility or do you need to punish immobile enemies?\<newline>\<newline>Provide champions that synergize well against THIS specific enemy composition, not just general strong picks.''"

text \<open>
  \<open>create_prompt(enemy_team, your_role)\<close>: the dict is read at the five role keys in
  the order of the template; a missing key raises \<open>KeyError\<close>.
\<close>

definition create_prompt :: "(string \<rightharpoonup> string) \<Rightarrow> string \<Rightarrow> exn + string" where
  "create_prompt enemy_team your_role =
     bind (getitem enemy_team ''top'') (\<lambda>top.
     bind (getitem enemy_team ''jungle'') (\<lambda>jungle.
     bind (getitem enemy_team ''mid'') (\<lambda>mid.
     bind (getitem enemy_team ''adc'') (\<lambda>adc.
     bind (getitem enemy_team ''support'') (\<lambda>support.
       Inr (tmpl_top @ top @ tmpl_jungle @ jungle @ tmpl_mid @ mid @ tmpl_adc @ adc
            @ tmpl_support @ support @ tmpl_role @ your_role @ tmpl_task @ your_role
            @ tmpl_criteria))))))"

section \<open>The world: console, client and network\<close>

record chat_message =
  role :: string
  content :: string

text \<open>
  The values of the keyword dict \<open>params\<close>. \<open>response_format\<close> holds the model
  class, represented by its validation function.
\<close>

datatype 'a param_value =
    PStr string
  | PMessages "chat_message list"
  | PResponseFormat "json \<Rightarrow> exn + 'a"
  | PFloat real

type_synonym 'a params = "string \<rightharpoonup> 'a param_value"

record 'a parsed_message =
  parsed :: "'a option"

record 'a choice =
  message :: "'a parsed_message"

record 'a completion =
  choices :: "'a choice list"

text \<open>
  \<open>client.beta.chat.completions.parse(**params)\<close> is the call into the external
  service: it returns a completion or raises. What it does is not part of the
  repository, so it is a parameter of the model.
\<close>

type_synonym 'a service = "'a params \<Rightarrow> exn + 'a completion"

text \<open>What the program does to the outside, in order.\<close>

datatype 'a event =
    ClientCreated string
  | ParseCall "'a params"

record 'a world =
  stdin :: "string list"
  stdout :: "string list"
  trace :: "'a event list"

type_synonym ('a, 'r) io = "'a world \<Rightarrow> (exn + 'r) \<times> 'a world"

definition io_bind :: "('a, 'r) io \<Rightarrow> ('r \<Rightarrow> ('a, 's) io) \<Rightarrow> ('a, 's) io" where
  "io_bind m f w = (case m w of (Inl e, w') \<Rightarrow> (Inl e, w') | (Inr x, w') \<Rightarrow> f x w')"

definition lift :: "exn + 'r \<Rightarrow> ('a, 'r) io" where
  "lift r w = (r, w)"

text \<open>\<open>try: m except Exception as e: h e\<close>.\<close>

definition try_except :: "('a, 'r) io \<Rightarrow> (exn \<Rightarrow> ('a, 'r) io) \<Rightarrow> ('a, 'r) io" where
  "try_except m h w = (case m w of (Inl e, w') \<Rightarrow> h e w' | (Inr x, w') \<Rightarrow> (Inr x, w'))"

text \<open>\<open>print(s)\<close> writes \<open>s\<close> and a newline.\<close>

definition print :: "string \<Rightarrow> ('a, unit) io" where
  "print s w = (Inr (), w\<lparr>stdout := stdout w @ [s @ nl]\<rparr>)"

fun print_all :: "string list \<Rightarrow> ('a, unit) io" where
  "print_all [] = lift (Inr ())"
| "print_all (s # ss) = io_bind (print s) (\<lambda>_. print_all ss)"

text \<open>
  \<open>input(prompt)\<close> writes the prompt and reads one line, without its newline; at
  the end of the input it raises \<open>EOFError\<close>.
\<close>

definition input :: "string \<Rightarrow> ('a, string) io" where
  "input prompt w =
     (let w' = w\<lparr>stdout := stdout w @ [prompt]\<rparr> in
      case stdin w' of
        [] \<Rightarrow> (Inl (EOFError ''EOF when reading a line''), w')
      | l # ls \<Rightarrow> (Inr l, w'\<lparr>stdin := ls\<rparr>))"

definition cross_mark :: string where
  "cross_mark = [CHR 0xE2, CHR 0x9D, CHR 0x8C]"

definition robot_face :: string where
  "robot_face = [CHR 0xF0, CHR 0x9F, CHR 0xA4, CHR 0x96]"

definition warning_sign :: string where
  "warning_sign = [CHR 0xE2, CHR 0x9A, CHR 0xA0, CHR 0xEF, CHR 0xB8, CHR 0x8F]"

section \<open>\<open>get_user_input\<close> of \<open>app.py\<close>\<close>

text \<open>\<open>"=" * 60\<close>.\<close>

definition rule60 :: string where
  "rule60 = replicate 60 CHR ''=''"

definition get_user_input :: "('a, string \<rightharpoonup> string) io" where
  "get_user_input =
     io_bind (print rule60) (\<lambda>_.
     io_bind (print ''    LEAGUE OF LEGENDS COUNTER-PICK AI AGENT'') (\<lambda>_.
     io_bind (print rule60) (\<lambda>_.
     io_bind (print ''\<newline>Enter enemy team champions (or press Enter to skip):\<newline>'') (\<lambda>_.
     io_bind (input ''Enemy Top: '') (\<lambda>l1.
     io_bind (input ''Enemy Jungle: '') (\<lambda>l2.
     io_bind (input ''Enemy Mid: '') (\<lambda>l3.
     io_bind (input ''Enemy ADC: '') (\<lambda>l4.
     io_bind (input ''Enemy Support: '') (\<lambda>l5.
     io_bind (print ''\<newline>Your role:'') (\<lambda>_.
     io_bind (input ''Role (Top/Jungle/Mid/ADC/Support): '') (\<lambda>l6.
       let enemy_top = or_else (strip l1) ''Unknown'';
           enemy_jgl = or_else (strip l2) ''Unknown'';
           enemy_mid = or_else (strip l3) ''Unknown'';
           enemy_adc = or_else (strip l4) ''Unknown'';
           enemy_support = or_else (strip l5) ''Unknown'';
           your_role = capitalize (strip l6)
       in lift (Inr [''top'' \<mapsto> enemy_top, ''jungle'' \<mapsto> enemy_jgl, ''mid'' \<mapsto> enemy_mid,
                     ''adc'' \<mapsto> enemy_adc, ''support'' \<mapsto> enemy_support,
                     ''your_role'' \<mapsto> your_role]))))))))))))"

section \<open>The structured completion client of \<open>helpers.py\<close>\<close>

text \<open>\<open>not api_key\<close>: an unset variable and the empty string are both falsy.\<close>

definition falsy :: "string option \<Rightarrow> bool" where
  "falsy v = (case v of None \<Rightarrow> True | Some s \<Rightarrow> s = [])"

text \<open>\<open>completion.choices[0].message.parsed\<close>.\<close>

definition first_parsed :: "'a completion \<Rightarrow> exn + 'a option" where
  "first_parsed completion =
     (case choices completion of
        [] \<Rightarrow> Inl (IndexError ''list index out of range'')
      | c # _ \<Rightarrow> Inr (parsed (message c)))"

text \<open>The body of the \<open>try\<close> block: build the parameters, call the service once, read the result.\<close>

definition call_service :: "'a service \<Rightarrow> 'a params \<Rightarrow> ('a, 'a option) io" where
  "call_service service params w =
     (bind (service params) first_parsed, w\<lparr>trace := trace w @ [ParseCall params]\<rparr>)"

definition with_temperature :: "string \<Rightarrow> 'a params \<Rightarrow> 'a params" where
  "with_temperature model params =
     (if \<not> startswith model ''gpt-5'' then params(''temperature'' \<mapsto> PFloat 0.7) else params)"

definition new_client :: "string \<Rightarrow> ('a, unit) io" where
  "new_client api_key w = (Inr (), w\<lparr>trace := trace w @ [ClientCreated api_key]\<rparr>)"

definition structured_generator ::
  "'a service \<Rightarrow> (string \<rightharpoonup> string) \<Rightarrow> string \<Rightarrow> string \<Rightarrow> (json \<Rightarrow> exn + 'a) \<Rightarrow> ('a, 'a option) io" where
  "structured_generator service environ model prompt response_model =
     (let api_key = environ ''OPENAI_API_KEY'' in
      if falsy api_key then
        lift (Inl (ValueError (
          ''OpenAI API key not found! Please set your OPENAI_API_KEY in the .env file.\<newline>'' @
          ''You can get an API key from: https://platform.openai.com/api-keys\<newline>\<newline>'' @
          ''Create a .env file in your project directory with:\<newline>'' @
          ''OPENAI_API_KEY=your-key-here'')))
      else
        io_bind (new_client (case api_key of Some k \<Rightarrow> k | None \<Rightarrow> [])) (\<lambda>_.
        try_except
          (let params = [''model'' \<mapsto> PStr model,
                         ''messages'' \<mapsto> PMessages [
                            \<lparr>role = ''system'',
                             content = ''You are a helpful AI assistant that provides structured, accurate responses.''\<rparr>,
                            \<lparr>role = ''user'', content = prompt\<rparr>],
                         ''response_format'' \<mapsto> PResponseFormat response_model]
           in call_service service (with_temperature model params))
          (\<lambda>e.
            io_bind (print (cross_mark @ '' Error calling OpenAI API: '' @ str_exn e)) (\<lambda>_.
            io_bind (print ''\<newline>Troubleshooting tips:'') (\<lambda>_.
            io_bind (print ''1. Check that your API key is valid in the .env file'') (\<lambda>_.
            io_bind (print ''2. Verify you have API credits available'') (\<lambda>_.
            io_bind (print ''3. Ensure the model name is correct'') (\<lambda>_.
            io_bind (print (''4. Model requested: '' @ model)) (\<lambda>_.
              lift (Inl e))))))))))"

definition structured_generator_with_system_prompt ::
  "'a service \<Rightarrow> (string \<rightharpoonup> string) \<Rightarrow> string \<Rightarrow> string \<Rightarrow> string \<Rightarrow> (json \<Rightarrow> exn + 'a)
     \<Rightarrow> ('a, 'a option) io" where
  "structured_generator_with_system_prompt service environ model system_prompt user_prompt response_model =
     (let api_key = environ ''OPENAI_API_KEY'' in
      if falsy api_key then
        lift (Inl (ValueError ''OPENAI_API_KEY not found in .env file!''))
      else
        io_bind (new_client (case api_key of Some k \<Rightarrow> k | None \<Rightarrow> [])) (\<lambda>_.
        try_except
          (let params = [''model'' \<mapsto> PStr model,
                         ''messages'' \<mapsto> PMessages [
                            \<lparr>role = ''system'', content = system_prompt\<rparr>,
                            \<lparr>role = ''user'', content = user_prompt\<rparr>],
                         ''response_format'' \<mapsto> PResponseFormat response_model]
           in call_service service (with_temperature model params))
          (\<lambda>e.
            io_bind (print (cross_mark @ '' Error: '' @ str_exn e)) (\<lambda>_.
              lift (Inl e)))))"

section \<open>\<open>main\<close> of \<open>app.py\<close>\<close>

text \<open>Reading an attribute of the result: \<open>None\<close> has none of them.\<close>

definition getattr :: "ChampionRecommendations option \<Rightarrow> string \<Rightarrow> exn + ChampionRecommendations" where
  "getattr result attr =
     (case result of
        None \<Rightarrow> Inl (AttributeError ([CHR 0x27] @ ''NoneType'' @ [CHR 0x27] @
                  '' object has no attribute '' @ [CHR 0x27] @ attr @ [CHR 0x27]))
      | Some r \<Rightarrow> Inr r)"

text \<open>\<open>enumerate(xs, 1)\<close>.\<close>

definition enumerate1 :: "'b list \<Rightarrow> (nat \<times> 'b) list" where
  "enumerate1 xs = zip [1 ..< Suc (length xs)] xs"

text \<open>The \<open>try\<close> block of \<open>main\<close>: the call of the generator, then the display of its result.\<close>

definition display_result ::
  "(string \<rightharpoonup> string) \<Rightarrow> ChampionRecommendations option \<Rightarrow> ('a, unit) io" where
  "display_result user_data result =
     io_bind (print rule60) (\<lambda>_.
     io_bind (lift (getitem user_data ''your_role'')) (\<lambda>r.
     io_bind (print (''  RECOMMENDED CHAMPIONS FOR '' @ upper r)) (\<lambda>_.
     io_bind (print rule60) (\<lambda>_.
     io_bind (lift (getattr result ''champions'')) (\<lambda>res.
     io_bind (print_all (map (\<lambda>(i, champion). str_nat i @ ''. '' @ champion) (enumerate1 (champions res)))) (\<lambda>_.
     io_bind (print (nl @ rule60)) (\<lambda>_.
     io_bind (print ''  KEY THREATS TO WATCH'') (\<lambda>_.
     io_bind (print rule60) (\<lambda>_.
     io_bind (print_all (map (\<lambda>threat. warning_sign @ ''  '' @ threat) (key_threats res))) (\<lambda>_.
     io_bind (print (nl @ rule60)) (\<lambda>_.
     io_bind (print ''  REASONING'') (\<lambda>_.
     io_bind (print rule60) (\<lambda>_.
     io_bind (print (reasoning res)) (\<lambda>_.
       print rule60))))))))))))))"

definition show_result ::
  "ChampionRecommendations service \<Rightarrow> (string \<rightharpoonup> string) \<Rightarrow> (string \<rightharpoonup> string) \<Rightarrow> string \<Rightarrow> string
     \<Rightarrow> (ChampionRecommendations, unit) io" where
  "show_result service environ user_data openai_model prompt =
     io_bind (structured_generator service environ openai_model prompt ChampionRecommendations_validate)
       (display_result user_data)"

text \<open>The \<open>except Exception as e\<close> block of \<open>main\<close>.\<close>

definition report_error :: "exn \<Rightarrow> ('a, unit) io" where
  "report_error e =
     io_bind (print (nl @ cross_mark @ '' Error: '' @ str_exn e)) (\<lambda>_.
     io_bind (print ''\<newline>Make sure:'') (\<lambda>_.
     io_bind (print ''1. Your .env file exists with OPENAI_API_KEY set'') (\<lambda>_.
     io_bind (print ''2. You have installed required packages: pip install openai pydantic python-dotenv'') (\<lambda>_.
       print ''3. You have API credits available in your OpenAI account''))))"

definition main ::
  "ChampionRecommendations service \<Rightarrow> (string \<rightharpoonup> string) \<Rightarrow> (ChampionRecommendations, unit) io" where
  "main service environ =
     io_bind get_user_input (\<lambda>user_data.
     io_bind (lift (getitem user_data ''top'')) (\<lambda>top.
     io_bind (lift (getitem user_data ''jungle'')) (\<lambda>jungle.
     io_bind (lift (getitem user_data ''mid'')) (\<lambda>mid.
     io_bind (lift (getitem user_data ''adc'')) (\<lambda>adc.
     io_bind (lift (getitem user_data ''support'')) (\<lambda>support.
     io_bind (lift (getitem user_data ''your_role'')) (\<lambda>your_role.
     io_bind (lift (create_prompt [''top'' \<mapsto> top, ''jungle'' \<mapsto> jungle, ''mid'' \<mapsto> mid,
                                   ''adc'' \<mapsto> adc, ''support'' \<mapsto> support] your_role)) (\<lambda>prompt.
       let openai_model = ''gpt-5'' in
       io_bind (print (nl @ robot_face @ '' Analyzing enemy team composition...'' @ nl)) (\<lambda>_.
       try_except (show_result service environ user_data openai_model prompt) report_error)))))))))"

section \<open>Observations on a run\<close>

text \<open>The network invocations of a trace: the parameters of each call of the service, in order.\<close>

definition parse_calls :: "'a event list \<Rightarrow> 'a params list" where
  "parse_calls evs = concat (map (\<lambda>ev. case ev of ParseCall p \<Rightarrow> [p] | ClientCreated _ \<Rightarrow> []) evs)"

text \<open>
  What \<open>main\<close> prints for an exception: the line with its message, then the
  remediation hints.
\<close>

definition error_report :: "exn \<Rightarrow> string list" where
  "error_report e =
     [nl @ cross_mark @ '' Error: '' @ str_exn e @ nl,
      ''\<newline>Make sure:'' @ nl,
      ''1. Your .env file exists with OPENAI_API_KEY set'' @ nl,
      ''2. You have installed required packages: pip install openai pydantic python-dotenv'' @ nl,
      ''3. You have API credits available in your OpenAI account'' @ nl]"


text \<open>The value stored under a key of a returned dict; nothing when the call raised.\<close>

definition returned_item :: "exn + (string \<rightharpoonup> 'v) \<Rightarrow> string \<Rightarrow> 'v option" where
  "returned_item r k = (case r of Inl e \<Rightarrow> None | Inr d \<Rightarrow> d k)"

section \<open>Basic facts about the model\<close>

lemma parse_calls_append: "parse_calls (xs @ ys) = parse_calls xs @ parse_calls ys"
  by (simp add: parse_calls_def)

lemma get_user_input_six:
  assumes "stdin w = l1 # l2 # l3 # l4 # l5 # l6 # rest"
  shows "get_user_input w =
    (Inr [''top'' \<mapsto> or_else (strip l1) ''Unknown'', ''jungle'' \<mapsto> or_else (strip l2) ''Unknown'',
          ''mid'' \<mapsto> or_else (strip l3) ''Unknown'', ''adc'' \<mapsto> or_else (strip l4) ''Unknown'',
          ''support'' \<mapsto> or_else (strip l5) ''Unknown'', ''your_role'' \<mapsto> capitalize (strip l6)],
     w\<lparr>stdin := rest,
       stdout := stdout w @ [rule60 @ nl, ''    LEAGUE OF LEGENDS COUNTER-PICK AI AGENT'' @ nl, rule60 @ nl,
          ''\<newline>Enter enemy team champions (or press Enter to skip):\<newline>'' @ nl,
          ''Enemy Top: '', ''Enemy Jungle: '', ''Enemy Mid: '', ''Enemy ADC: '', ''Enemy Support: '',
          ''\<newline>Your role:'' @ nl, ''Role (Top/Jungle/Mid/ADC/Support): '']\<rparr>)"
  using assms
  by (simp add: get_user_input_def io_bind_def print_def input_def lift_def Let_def)

lemma sg_missing:
  "falsy (environ ''OPENAI_API_KEY'') \<Longrightarrow>
   structured_generator service environ model prompt rm w =
     (Inl (ValueError (
          ''OpenAI API key not found! Please set your OPENAI_API_KEY in the .env file.\<newline>'' @
          ''You can get an API key from: https://platform.openai.com/api-keys\<newline>\<newline>'' @
          ''Create a .env file in your project directory with:\<newline>'' @
          ''OPENAI_API_KEY=your-key-here'')), w)"
  by (simp add: structured_generator_def lift_def Let_def)

lemma sg_present:
  assumes "environ ''OPENAI_API_KEY'' = Some k" "k \<noteq> []"
  shows "structured_generator service environ model prompt rm w =
    (let p = with_temperature model [''model'' \<mapsto> PStr model,
                         ''messages'' \<mapsto> PMessages [
                            \<lparr>role = ''system'',
                             content = ''You are a helpful AI assistant that provides structured, accurate responses.''\<rparr>,
                            \<lparr>role = ''user'', content = prompt\<rparr>],
                         ''response_format'' \<mapsto> PResponseFormat rm];
         w1 = w\<lparr>trace := trace w @ [ClientCreated k, ParseCall p]\<rparr>
     in case bind (service p) first_parsed of
          Inr r \<Rightarrow> (Inr r, w1)
        | Inl e \<Rightarrow> (Inl e, w1\<lparr>stdout := stdout w @ [
             cross_mark @ '' Error calling OpenAI API: '' @ str_exn e @ nl,
             ''\<newline>Troubleshooting tips:'' @ nl,
             ''1. Check that your API key is valid in the .env file'' @ nl,
             ''2. Verify you have API credits available'' @ nl,
             ''3. Ensure the model name is correct'' @ nl,
             ''4. Model requested: '' @ model @ nl]\<rparr>))"
  using assms
  by (simp add: structured_generator_def falsy_def io_bind_def new_client_def try_except_def
      call_service_def print_def lift_def Let_def split: sum.splits)


lemma swsp_missing:
  "falsy (environ ''OPENAI_API_KEY'') \<Longrightarrow>
   structured_generator_with_system_prompt service environ model sp up rm w =
     (Inl (ValueError ''OPENAI_API_KEY not found in .env file!''), w)"
  by (simp add: structured_generator_with_system_prompt_def lift_def Let_def)

lemma swsp_present:
  assumes "environ ''OPENAI_API_KEY'' = Some k" "k \<noteq> []"
  shows "structured_generator_with_system_prompt service environ model sp up rm w =
    (let p = with_temperature model [''model'' \<mapsto> PStr model,
                         ''messages'' \<mapsto> PMessages [
                            \<lparr>role = ''system'', content = sp\<rparr>,
                            \<lparr>role = ''user'', content = up\<rparr>],
                         ''response_format'' \<mapsto> PResponseFormat rm];
         w1 = w\<lparr>trace := trace w @ [ClientCreated k, ParseCall p]\<rparr>
     in case bind (service p) first_parsed of
          Inr r \<Rightarrow> (Inr r, w1)
        | Inl e \<Rightarrow> (Inl e, w1\<lparr>stdout := stdout w @ [cross_mark @ '' Error: '' @ str_exn e @ nl]\<rparr>))"
  using assms
  by (simp add: structured_generator_with_system_prompt_def falsy_def io_bind_def new_client_def
      try_except_def call_service_def print_def lift_def Let_def split: sum.splits)

lemma with_temperature_key:
  "p ''temperature'' = None \<Longrightarrow>
   with_temperature model p ''temperature'' = (if startswith model ''gpt-5'' then None else Some (PFloat 0.7))"
  by (simp add: with_temperature_def)

lemma truthy_cases: "\<not> falsy v \<Longrightarrow> \<exists>k. v = Some k \<and> k \<noteq> []"
  by (cases v) (simp_all add: falsy_def)

lemma print_all_eq: "print_all ss w = (Inr (), w\<lparr>stdout := stdout w @ map (\<lambda>s. s @ nl) ss\<rparr>)"
proof (induction ss arbitrary: w)
  case Nil
  then show ?case by (simp add: lift_def)
next
  case (Cons s ss)
  then show ?case by (simp add: io_bind_def print_def)
qed

lemma display_result_trace: "trace (snd (display_result ud r w)) = trace w"
  by (cases "ud ''your_role''"; cases r)
     (simp_all add: display_result_def io_bind_def print_def lift_def getitem_def getattr_def print_all_eq)

lemma report_error_eq: "report_error e w = (Inr (), w\<lparr>stdout := stdout w @ error_report e\<rparr>)"
  by (simp add: report_error_def error_report_def io_bind_def print_def)

lemma try_report_returns: "fst (try_except m report_error w) = Inr ()"
  by (cases "m w"; cases "fst (m w)") (auto simp add: try_except_def report_error_eq)


lemma main_six:
  assumes "stdin w = l1 # l2 # l3 # l4 # l5 # l6 # rest"
  shows "main service environ w =
    try_except
      (show_result service environ
        [''top'' \<mapsto> or_else (strip l1) ''Unknown'', ''jungle'' \<mapsto> or_else (strip l2) ''Unknown'',
          ''mid'' \<mapsto> or_else (strip l3) ''Unknown'', ''adc'' \<mapsto> or_else (strip l4) ''Unknown'',
          ''support'' \<mapsto> or_else (strip l5) ''Unknown'', ''your_role'' \<mapsto> capitalize (strip l6)]
        ''gpt-5''
        (tmpl_top @ or_else (strip l1) ''Unknown'' @ tmpl_jungle @ or_else (strip l2) ''Unknown''
          @ tmpl_mid @ or_else (strip l3) ''Unknown'' @ tmpl_adc @ or_else (strip l4) ''Unknown''
          @ tmpl_support @ or_else (strip l5) ''Unknown'' @ tmpl_role @ capitalize (strip l6)
          @ tmpl_task @ capitalize (strip l6) @ tmpl_criteria))
      report_error
      (w\<lparr>stdin := rest,
       stdout := stdout w @ [rule60 @ nl, ''    LEAGUE OF LEGENDS COUNTER-PICK AI AGENT'' @ nl, rule60 @ nl,
          ''\<newline>Enter enemy team champions (or press Enter to skip):\<newline>'' @ nl,
          ''Enemy Top: '', ''Enemy Jungle: '', ''Enemy Mid: '', ''Enemy ADC: '', ''Enemy Support: '',
          ''\<newline>Your role:'' @ nl, ''Role (Top/Jungle/Mid/ADC/Support): '',
          nl @ robot_face @ '' Analyzing enemy team composition...'' @ nl @ nl]\<rparr>)"
  by (simp add: main_def io_bind_def get_user_input_six [OF assms] lift_def getitem_def
      create_prompt_def bind_def print_def Let_def)


lemma try_show_missing:
  assumes "falsy (environ ''OPENAI_API_KEY'')"
  shows "\<exists>m. try_except (show_result service environ ud model pr) report_error w1
           = (Inr (), w1\<lparr>stdout := stdout w1 @ error_report (ValueError m)\<rparr>)"
proof -
  from sg_missing [where environ = environ, OF assms]
  obtain m where "structured_generator service environ model pr ChampionRecommendations_validate w1
      = (Inl (ValueError m), w1)"
    by blast
  then have "try_except (show_result service environ ud model pr) report_error w1
           = (Inr (), w1\<lparr>stdout := stdout w1 @ error_report (ValueError m)\<rparr>)"
    by (simp add: try_except_def show_result_def io_bind_def report_error_eq)
  then show ?thesis ..
qed

lemma try_show_trace:
  assumes "environ ''OPENAI_API_KEY'' = Some k" "k \<noteq> []"
  shows "trace (snd (try_except (show_result service environ ud model pr) report_error w1))
           = trace w1 @ [ClientCreated k, ParseCall (with_temperature model [''model'' \<mapsto> PStr model,
                         ''messages'' \<mapsto> PMessages [
                            \<lparr>role = ''system'',
                             content = ''You are a helpful AI assistant that provides structured, accurate responses.''\<rparr>,
                            \<lparr>role = ''user'', content = pr\<rparr>],
                         ''response_format'' \<mapsto> PResponseFormat ChampionRecommendations_validate])]"
    (is "_ = _ @ [_, ParseCall ?p]")
proof (cases "bind (service ?p) first_parsed")
  case (Inl e)
  then show ?thesis
    by (simp add: try_except_def show_result_def io_bind_def report_error_eq Let_def
        sg_present [where environ = environ and k = k, OF assms])
next
  case (Inr r)
  have a: "show_result service environ ud model pr w1
      = display_result ud r (w1\<lparr>trace := trace w1 @ [ClientCreated k, ParseCall ?p]\<rparr>)"
    using Inr
    by (simp add: show_result_def io_bind_def Let_def sg_present [where environ = environ and k = k, OF assms])
  have b: "trace (snd (try_except m report_error w)) = trace (snd (m w))"
    for m :: "(ChampionRecommendations, unit) io" and w
    by (cases "m w"; cases "fst (m w)") (auto simp add: try_except_def report_error_eq)
  show ?thesis
    by (simp add: a b display_result_trace)
qed

lemma try_show_error:
  assumes "environ ''OPENAI_API_KEY'' = Some k" "k \<noteq> []"
    and "service (with_temperature model [''model'' \<mapsto> PStr model,
                         ''messages'' \<mapsto> PMessages [
                            \<lparr>role = ''system'',
                             content = ''You are a helpful AI assistant that provides structured, accurate responses.''\<rparr>,
                            \<lparr>role = ''user'', content = pr\<rparr>],
                         ''response_format'' \<mapsto> PResponseFormat ChampionRecommendations_validate]) = Inl e"
  shows "suffix (error_report e)
           (stdout (snd (try_except (show_result service environ ud model pr) report_error w1)))"
  using assms(3)
  by (simp add: try_except_def show_result_def io_bind_def report_error_eq Let_def suffix_def bind_def
      sg_present [where environ = environ and k = k, OF assms(1,2)])


lemma main_six_ex:
  assumes "stdin w = l1 # l2 # l3 # l4 # l5 # l6 # rest"
  shows "\<exists>ud pr w1.
      main service environ w = try_except (show_result service environ ud ''gpt-5'' pr) report_error w1
    \<and> trace w1 = trace w
    \<and> get_user_input w = (Inr ud, w1\<lparr>stdout := butlast (stdout w1)\<rparr>)
    \<and> ud ''your_role'' = Some (capitalize (strip l6))
    \<and> create_prompt ud (capitalize (strip l6)) = Inr pr"
  unfolding main_six [OF assms] get_user_input_six [OF assms]
  by (intro exI conjI, rule refl) (simp_all add: create_prompt_def bind_def getitem_def butlast_append)

lemma strip_examples:
  "strip ''ADC'' = CHR ''A'' # ''DC''" "strip '' mid '' = CHR ''m'' # ''id''" "strip [] = []" "strip ''  '' = []"
  by (simp_all add: strip_def py_isspace_def)


lemma validate_str_Inr: "validate_str f v = Inr s \<longleftrightarrow> v = JStr s"
  by (cases v) (simp_all add: validate_str_def)

lemma validate_str_Inl: "validate_str f v = Inl e \<Longrightarrow> \<exists>m. e = ValidationError m"
  by (cases v) (auto simp add: validate_str_def)

lemma bind_Inr: "bind r f = Inr y \<longleftrightarrow> (\<exists>x. r = Inr x \<and> f x = Inr y)"
  by (cases r) (simp_all add: bind_def)

lemma bind_Inl: "bind r f = Inl e \<longleftrightarrow> r = Inl e \<or> (\<exists>x. r = Inr x \<and> f x = Inl e)"
  by (cases r) (simp_all add: bind_def)

lemma validate_items_map: "validate_items f (map JStr ss) = Inr ss"
  by (induction ss) (simp_all add: validate_str_def bind_def)

lemma validate_items_sound: "validate_items f vs = Inr ss \<Longrightarrow> vs = map JStr ss"
proof (induction vs arbitrary: ss)
  case Nil
  then show ?case by simp
next
  case (Cons v vs)
  from Cons.prems obtain s ts
    where s: "validate_str f v = Inr s" and ts: "validate_items f vs = Inr ts" and ss: "ss = s # ts"
    by (auto simp add: bind_Inr)
  from s have "v = JStr s" by (simp add: validate_str_Inr)
  moreover from ts have "vs = map JStr ts" by (rule Cons.IH)
  ultimately show ?case by (simp add: ss)
qed

lemma validate_items_Inr: "validate_items f vs = Inr ss \<longleftrightarrow> vs = map JStr ss"
  using validate_items_map validate_items_sound by blast

lemma validate_items_Inl: "validate_items f vs = Inl e \<Longrightarrow> \<exists>m. e = ValidationError m"
proof (induction vs arbitrary: e)
  case Nil
  then show ?case by simp
next
  case (Cons v vs)
  from Cons.prems have "validate_str f v = Inl e \<or> validate_items f vs = Inl e"
    by (auto simp add: bind_Inl)
  then show ?case
    using validate_str_Inl Cons.IH by blast
qed

lemma validate_list_str_Inr:
  "validate_list_str f lo hi v = Inr ss \<longleftrightarrow>
     v = JArr (map JStr ss)
     \<and> (case lo of None \<Rightarrow> True | Some n \<Rightarrow> n \<le> length ss)
     \<and> (case hi of None \<Rightarrow> True | Some n \<Rightarrow> length ss \<le> n)"
proof (cases v)
  case (JArr vs)
  have "validate_list_str f lo hi (JArr vs) = Inr ss \<longleftrightarrow>
      validate_items f vs = Inr ss
      \<and> (case lo of None \<Rightarrow> True | Some n \<Rightarrow> n \<le> length ss)
      \<and> (case hi of None \<Rightarrow> True | Some n \<Rightarrow> length ss \<le> n)"
  proof (cases "validate_items f vs")
    case (Inl e)
    then show ?thesis by (simp add: validate_list_str_def bind_def)
  next
    case (Inr ts)
    then show ?thesis
      by (cases lo; cases hi) (auto simp add: validate_list_str_def bind_def)
  qed
  then show ?thesis
    by (simp add: JArr validate_items_Inr)
qed (simp_all add: validate_list_str_def)

lemma validate_list_str_Inl: "validate_list_str f lo hi v = Inl e \<Longrightarrow> \<exists>m. e = ValidationError m"
proof (cases v)
  case (JArr vs)
  assume "validate_list_str f lo hi v = Inl e"
  then have "validate_items f vs = Inl e \<or> (\<exists>m. e = ValidationError m)"
    by (auto simp add: JArr validate_list_str_def bind_Inl split: if_splits)
  then show ?thesis
    using validate_items_Inl by blast
qed (auto simp add: validate_list_str_def)

lemma required_Inr: "required kvs f = Inr v \<longleftrightarrow> obj_get kvs f = Some v"
  by (simp add: required_def split: option.splits)

lemma required_Inl: "required kvs f = Inl e \<Longrightarrow> \<exists>m. e = ValidationError m"
  by (auto simp add: required_def split: option.splits)

lemma validate_Inr:
  "ChampionRecommendations_validate v = Inr r \<longleftrightarrow>
     (\<exists>kvs. v = JObj kvs
        \<and> obj_get kvs ''champions'' = Some (JArr (map JStr (champions r)))
        \<and> 3 \<le> length (champions r) \<and> length (champions r) \<le> 5
        \<and> obj_get kvs ''reasoning'' = Some (JStr (reasoning r))
        \<and> obj_get kvs ''key_threats'' = Some (JArr (map JStr (key_threats r))))"
proof (cases v)
  case (JObj kvs)
  have eq: "\<lparr>champions = cs, reasoning = rs, key_threats = ks\<rparr> = r
      \<longleftrightarrow> champions r = cs \<and> reasoning r = rs \<and> key_threats r = ks" for cs rs ks
    by (cases r) auto
  have "ChampionRecommendations_validate (JObj kvs) = Inr r \<longleftrightarrow>
      (\<exists>c cs x rs k ks. obj_get kvs ''champions'' = Some c
         \<and> validate_list_str ''champions'' (Some 3) (Some 5) c = Inr cs
         \<and> obj_get kvs ''reasoning'' = Some x \<and> validate_str ''reasoning'' x = Inr rs
         \<and> obj_get kvs ''key_threats'' = Some k
         \<and> validate_list_str ''key_threats'' None None k = Inr ks
         \<and> \<lparr>champions = cs, reasoning = rs, key_threats = ks\<rparr> = r)"
    by (simp add: ChampionRecommendations_validate_def bind_Inr required_Inr)
  also have "\<dots> \<longleftrightarrow>
      (obj_get kvs ''champions'' = Some (JArr (map JStr (champions r)))
        \<and> 3 \<le> length (champions r) \<and> length (champions r) \<le> 5
        \<and> obj_get kvs ''reasoning'' = Some (JStr (reasoning r))
        \<and> obj_get kvs ''key_threats'' = Some (JArr (map JStr (key_threats r))))"
    unfolding validate_list_str_Inr validate_str_Inr eq by auto
  finally show ?thesis
    by (simp add: JObj)
qed (simp_all add: ChampionRecommendations_validate_def)

lemma validate_Inl: "ChampionRecommendations_validate v = Inl e \<Longrightarrow> \<exists>m. e = ValidationError m"
proof (cases v)
  case (JObj kvs)
  assume "ChampionRecommendations_validate v = Inl e"
  then have "required kvs ''champions'' = Inl e
      \<or> (\<exists>c. validate_list_str ''champions'' (Some 3) (Some 5) c = Inl e)
      \<or> required kvs ''reasoning'' = Inl e
      \<or> (\<exists>x. validate_str ''reasoning'' x = Inl e)
      \<or> required kvs ''key_threats'' = Inl e
      \<or> (\<exists>k. validate_list_str ''key_threats'' None None k = Inl e)"
    unfolding JObj ChampionRecommendations_validate_def by (simp add: bind_Inl) blast
  then show ?thesis
    using required_Inl validate_list_str_Inl validate_str_Inl by blast
qed (auto simp add: ChampionRecommendations_validate_def)










section \<open>The response schema\<close>

text \<open>
  C1. Validation of a response succeeds with the result \<open>r\<close> exactly when the response is
  an object whose \<open>champions\<close> field is a list of 3, 4 or 5 strings, whose \<open>reasoning\<close>
  field is a string and whose \<open>key_threats\<close> field is a list of strings, and then \<open>r\<close>
  holds exactly these values, so that its number of champions is that of the response.
  Every other response raises a schema-validation failure; in particular one whose
  \<open>champions\<close> field has 2 or 6 names.
\<close>

theorem champion_recommendations_parse:
  "(ChampionRecommendations_validate v = Inr r \<longleftrightarrow>
     (\<exists>kvs. v = JObj kvs
        \<and> obj_get kvs ''champions'' = Some (JArr (map JStr (champions r)))
        \<and> length (champions r) \<in> {3, 4, 5}
        \<and> obj_get kvs ''reasoning'' = Some (JStr (reasoning r))
        \<and> obj_get kvs ''key_threats'' = Some (JArr (map JStr (key_threats r)))))
   \<and> ((\<exists>r'. ChampionRecommendations_validate v = Inr r')
        \<or> (\<exists>m. ChampionRecommendations_validate v = Inl (ValidationError m)))
   \<and> (\<forall>kvs cs. v = JObj kvs \<and> obj_get kvs ''champions'' = Some (JArr (map JStr cs))
          \<and> (length cs = 2 \<or> length cs = 6)
        \<longrightarrow> (\<exists>m. ChampionRecommendations_validate v = Inl (ValidationError m)))"
proof (intro conjI allI impI)
  have n: "(3 \<le> n \<and> n \<le> 5) = (n \<in> {3, 4, 5})" for n :: nat
    by auto
  show "ChampionRecommendations_validate v = Inr r \<longleftrightarrow>
     (\<exists>kvs. v = JObj kvs
        \<and> obj_get kvs ''champions'' = Some (JArr (map JStr (champions r)))
        \<and> length (champions r) \<in> {3, 4, 5}
        \<and> obj_get kvs ''reasoning'' = Some (JStr (reasoning r))
        \<and> obj_get kvs ''key_threats'' = Some (JArr (map JStr (key_threats r))))"
    unfolding validate_Inr n [symmetric] by (simp add: conj_assoc)
  show total: "(\<exists>r'. ChampionRecommendations_validate v = Inr r')
        \<or> (\<exists>m. ChampionRecommendations_validate v = Inl (ValidationError m))"
    using validate_Inl by (cases "ChampionRecommendations_validate v") blast+
  fix kvs cs
  assume a: "v = JObj kvs \<and> obj_get kvs ''champions'' = Some (JArr (map JStr cs))
          \<and> (length cs = 2 \<or> length cs = 6)"
  have "ChampionRecommendations_validate v \<noteq> Inr r'" for r'
  proof
    assume "ChampionRecommendations_validate v = Inr r'"
    then have "obj_get kvs ''champions'' = Some (JArr (map JStr (champions r')))"
      and "3 \<le> length (champions r')" "length (champions r') \<le> 5"
      using a by (auto simp add: validate_Inr)
    with a have "map JStr cs = map JStr (champions r')" by simp
    then have "length cs = length (champions r')" by (rule map_eq_imp_length_eq)
    with a \<open>3 \<le> length (champions r')\<close> \<open>length (champions r') \<le> 5\<close> show False by auto
  qed
  with total show "\<exists>m. ChampionRecommendations_validate v = Inl (ValidationError m)"
    by blast
qed

theorem champion_recommendations_parse_witness:
  "ChampionRecommendations_validate (JObj [(''champions'', JArr [JStr ''Malphite'', JStr ''Ornn'', JStr ''Shen'']),
       (''reasoning'', JStr ''tanks''), (''key_threats'', JArr [JStr ''burst''])])
     = Inr \<lparr>champions = [''Malphite'', ''Ornn'', ''Shen''], reasoning = ''tanks'', key_threats = [''burst'']\<rparr>
   \<and> (\<exists>m. ChampionRecommendations_validate (JObj [(''champions'', JArr [JStr ''Malphite'', JStr ''Ornn'']),
       (''reasoning'', JStr ''tanks''), (''key_threats'', JArr [JStr ''burst''])])
     = Inl (ValidationError m))"
proof -
  let ?r = "\<lparr>champions = [''Malphite'', ''Ornn'', ''Shen''], reasoning = ''tanks'', key_threats = [''burst'']\<rparr>"
  let ?kvs = "[(''champions'', JArr [JStr ''Malphite'', JStr ''Ornn'']),
       (''reasoning'', JStr ''tanks''), (''key_threats'', JArr [JStr ''burst''])]"
  have good: "ChampionRecommendations_validate (JObj [(''champions'', JArr [JStr ''Malphite'', JStr ''Ornn'', JStr ''Shen'']),
       (''reasoning'', JStr ''tanks''), (''key_threats'', JArr [JStr ''burst''])]) = Inr ?r"
    using champion_recommendations_parse [of "JObj [(''champions'', JArr [JStr ''Malphite'', JStr ''Ornn'', JStr ''Shen'']),
       (''reasoning'', JStr ''tanks''), (''key_threats'', JArr [JStr ''burst''])]" ?r, THEN conjunct1]
    by (simp add: obj_get_def)
  have two: "JObj ?kvs = JObj ?kvs \<and> obj_get ?kvs ''champions'' = Some (JArr (map JStr [''Malphite'', ''Ornn'']))
      \<and> (length [''Malphite'', ''Ornn''] = 2 \<or> length [''Malphite'', ''Ornn''] = 6)"
    by (simp add: obj_get_def)
  have bad: "\<exists>m. ChampionRecommendations_validate (JObj ?kvs) = Inl (ValidationError m)"
    using champion_recommendations_parse [of "JObj ?kvs" ?r, THEN conjunct2, THEN conjunct2,
        rule_format, OF two] .
  from good bad show ?thesis by (rule conjI)
qed

section \<open>The client: credential, parameters, failures\<close>

text \<open>
  C3. When \<open>OPENAI_API_KEY\<close> is absent from the environment, \<open>structured_generator\<close>
  raises a \<open>ValueError\<close> and the service has been called no more often than before the
  call: no network invocation happens.
\<close>
theorem missing_credential_no_network_call:
  assumes "environ ''OPENAI_API_KEY'' = None"
  shows "(\<exists>m. fst (structured_generator service environ model prompt response_model w) = Inl (ValueError m))
       \<and> parse_calls (trace (snd (structured_generator service environ model prompt response_model w)))
           = parse_calls (trace w)"
proof -
  have "falsy (environ ''OPENAI_API_KEY'')" using assms by (simp add: falsy_def)
  then show ?thesis by (simp add: sg_missing)
qed

theorem missing_credential_no_network_call_witness:
  "fst (structured_generator (\<lambda>p. Inr \<lparr>choices = []\<rparr>) Map.empty ''gpt-4'' ''hello'' ChampionRecommendations_validate
         \<lparr>stdin = [], stdout = [], trace = []\<rparr>) \<noteq> Inr None
   \<and> parse_calls (trace (snd (structured_generator (\<lambda>p. Inr \<lparr>choices = []\<rparr>) Map.empty ''gpt-4'' ''hello''
         ChampionRecommendations_validate \<lparr>stdin = [], stdout = [], trace = []\<rparr>))) = []"
  using missing_credential_no_network_call [of Map.empty "\<lambda>p. Inr \<lparr>choices = []\<rparr>" "''gpt-4''" "''hello''"
       ChampionRecommendations_validate "\<lparr>stdin = [], stdout = [], trace = []\<rparr>"]
  by (auto simp add: parse_calls_def)

text \<open>
  C10. An empty \<open>OPENAI_API_KEY\<close> is treated as an absent one: in both cases
  \<open>structured_generator\<close> and \<open>structured_generator_with_system_prompt\<close> raise a
  \<open>ValueError\<close> whose message names the \<open>.env\<close> file, and the world is left as it was:
  no client has been constructed and nothing has been sent.
\<close>
theorem empty_key_treated_as_absent:
  assumes "environ ''OPENAI_API_KEY'' = None \<or> environ ''OPENAI_API_KEY'' = Some []"
  shows "\<exists>m1 m2.
      structured_generator service environ model prompt response_model w = (Inl (ValueError m1), w)
    \<and> structured_generator_with_system_prompt service environ model system_prompt user_prompt response_model w
         = (Inl (ValueError m2), w)
    \<and> sublist ''.env'' m1 \<and> sublist ''.env'' m2"
proof -
  have f: "falsy (environ ''OPENAI_API_KEY'')" using assms by (auto simp add: falsy_def)
  have s1: "sublist ''.env'' (''OpenAI API key not found! Please set your OPENAI_API_KEY in the .env file.\<newline>'' @
          ''You can get an API key from: https://platform.openai.com/api-keys\<newline>\<newline>'' @
          ''Create a .env file in your project directory with:\<newline>'' @
          ''OPENAI_API_KEY=your-key-here'')"
    by code_simp
  have s2: "sublist ''.env'' ''OPENAI_API_KEY not found in .env file!''"
    by code_simp
  show ?thesis
    using f s1 s2 by (simp add: sg_missing swsp_missing)
qed

theorem empty_key_treated_as_absent_witness:
  "\<exists>m1 m2.
      structured_generator (\<lambda>p. Inr \<lparr>choices = []\<rparr>) [''OPENAI_API_KEY'' \<mapsto> []] ''gpt-4'' ''hello''
        ChampionRecommendations_validate \<lparr>stdin = [], stdout = [], trace = []\<rparr>
        = (Inl (ValueError m1), \<lparr>stdin = [], stdout = [], trace = []\<rparr>)
    \<and> structured_generator_with_system_prompt (\<lambda>p. Inr \<lparr>choices = []\<rparr>) [''OPENAI_API_KEY'' \<mapsto> []]
        ''gpt-4'' ''be brief'' ''hello'' ChampionRecommendations_validate \<lparr>stdin = [], stdout = [], trace = []\<rparr>
        = (Inl (ValueError m2), \<lparr>stdin = [], stdout = [], trace = []\<rparr>)
    \<and> sublist ''.env'' m1 \<and> sublist ''.env'' m2"
  using empty_key_treated_as_absent [of "[''OPENAI_API_KEY'' \<mapsto> []]" "\<lambda>p. Inr \<lparr>choices = []\<rparr>"
      "''gpt-4''" "''hello''" ChampionRecommendations_validate "\<lparr>stdin = [], stdout = [], trace = []\<rparr>"
      "''be brief''" "''hello''"]
  by simp

text \<open>
  C2. With a credential present, each generator sends exactly one request, and its
  parameters have no \<open>temperature\<close> entry when the model identifier starts with
  \<open>gpt-5\<close> (the identifiers that disable the sampling temperature) and have
  \<open>temperature = 0.7\<close> for every other identifier.
\<close>

theorem temperature_by_model:
  assumes "\<not> falsy (environ ''OPENAI_API_KEY'')"
  shows "\<exists>k p q.
      trace (snd (structured_generator service environ model prompt response_model w))
        = trace w @ [ClientCreated k, ParseCall p]
    \<and> trace (snd (structured_generator_with_system_prompt service environ model system_prompt prompt response_model w))
        = trace w @ [ClientCreated k, ParseCall q]
    \<and> p ''temperature'' = (if startswith model ''gpt-5'' then None else Some (PFloat 0.7))
    \<and> q ''temperature'' = (if startswith model ''gpt-5'' then None else Some (PFloat 0.7))"
proof -
  from truthy_cases [OF assms] obtain k where k: "environ ''OPENAI_API_KEY'' = Some k" "k \<noteq> []"
    by blast
  show ?thesis
    unfolding sg_present [where environ = environ and k = k, OF k]
      swsp_present [where environ = environ and k = k, OF k] Let_def
    by (auto simp add: with_temperature_key split: sum.splits)
qed

theorem temperature_by_model_witness:
  "(\<exists>k p.
      trace (snd (structured_generator (\<lambda>p. Inr \<lparr>choices = []\<rparr>) [''OPENAI_API_KEY'' \<mapsto> ''sk-1''] ''gpt-5-mini''
         ''hello'' ChampionRecommendations_validate \<lparr>stdin = [], stdout = [], trace = []\<rparr>))
        = [ClientCreated k, ParseCall p] \<and> p ''temperature'' = None)
   \<and> (\<exists>k q.
      trace (snd (structured_generator (\<lambda>p. Inr \<lparr>choices = []\<rparr>) [''OPENAI_API_KEY'' \<mapsto> ''sk-1''] ''gpt-4''
         ''hello'' ChampionRecommendations_validate \<lparr>stdin = [], stdout = [], trace = []\<rparr>))
        = [ClientCreated k, ParseCall q] \<and> q ''temperature'' = Some (PFloat 0.7))"
proof -
  have t: "\<not> falsy ([''OPENAI_API_KEY'' \<mapsto> ''sk-1''] ''OPENAI_API_KEY'')"
    by (simp add: falsy_def)
  have a: "startswith ''gpt-5-mini'' ''gpt-5''" and b: "\<not> startswith ''gpt-4'' ''gpt-5''"
    by (simp_all add: startswith_def)
  show ?thesis
    using temperature_by_model [where environ = "[''OPENAI_API_KEY'' \<mapsto> ''sk-1'']"
        and service = "\<lambda>p. Inr \<lparr>choices = []\<rparr>" and model = "''gpt-5-mini''" and prompt = "''hello''"
        and response_model = ChampionRecommendations_validate
        and w = "\<lparr>stdin = [], stdout = [], trace = []\<rparr>" and system_prompt = "''sys''", OF t]
      temperature_by_model [where environ = "[''OPENAI_API_KEY'' \<mapsto> ''sk-1'']"
        and service = "\<lambda>p. Inr \<lparr>choices = []\<rparr>" and model = "''gpt-4''" and prompt = "''hello''"
        and response_model = ChampionRecommendations_validate
        and w = "\<lparr>stdin = [], stdout = [], trace = []\<rparr>" and system_prompt = "''sys''", OF t]
    by (auto simp add: a b)
qed



section \<open>The program: input, prompt and error reports\<close>

text \<open>
  C8. When the six inputs are given, \<open>main\<close> returns normally whatever happens inside its
  \<open>try\<close> block, and an error is shown to the user: with a missing (or empty) credential the
  output ends with the error line for the \<open>ValueError\<close> followed by the remediation hints;
  with a credential, when the single call of the service raises \<open>e\<close> (a transport or
  authentication failure, or the schema-validation failure of the response), the output ends
  with the error line for \<open>e\<close> followed by the remediation hints.
\<close>

theorem main_reports_errors:
  assumes "stdin w = l1 # l2 # l3 # l4 # l5 # l6 # rest"
  shows "fst (main service environ w) = Inr ()
     \<and> (falsy (environ ''OPENAI_API_KEY'') \<longrightarrow>
          (\<exists>m. suffix (error_report (ValueError m)) (stdout (snd (main service environ w)))))
     \<and> (\<not> falsy (environ ''OPENAI_API_KEY'') \<longrightarrow>
          (\<exists>k p. trace (snd (main service environ w)) = trace w @ [ClientCreated k, ParseCall p]
             \<and> (\<forall>e. service p = Inl e \<longrightarrow>
                   suffix (error_report e) (stdout (snd (main service environ w))))))"
proof -
  from main_six_ex [OF assms] obtain ud pr w1
    where m: "main service environ w
                = try_except (show_result service environ ud ''gpt-5'' pr) report_error w1"
      and w1: "trace w1 = trace w"
    by blast
  have ret: "fst (main service environ w) = Inr ()"
    unfolding m by (rule try_report_returns)
  have missing: "\<exists>m. suffix (error_report (ValueError m)) (stdout (snd (main service environ w)))"
    if f: "falsy (environ ''OPENAI_API_KEY'')"
  proof -
    from try_show_missing [where environ = environ, OF f]
    obtain msg where "try_except (show_result service environ ud ''gpt-5'' pr) report_error w1
           = (Inr (), w1\<lparr>stdout := stdout w1 @ error_report (ValueError msg)\<rparr>)"
      by blast
    then have "suffix (error_report (ValueError msg)) (stdout (snd (main service environ w)))"
      unfolding m by (simp add: suffix_def)
    then show ?thesis ..
  qed
  have present: "\<exists>k p. trace (snd (main service environ w)) = trace w @ [ClientCreated k, ParseCall p]
             \<and> (\<forall>e. service p = Inl e \<longrightarrow>
                   suffix (error_report e) (stdout (snd (main service environ w))))"
    if t: "\<not> falsy (environ ''OPENAI_API_KEY'')"
  proof -
    from truthy_cases [OF t] obtain k where k: "environ ''OPENAI_API_KEY'' = Some k" "k \<noteq> []"
      by blast
    let ?p = "with_temperature ''gpt-5'' [''model'' \<mapsto> PStr ''gpt-5'',
                         ''messages'' \<mapsto> PMessages [
                            \<lparr>role = ''system'',
                             content = ''You are a helpful AI assistant that provides structured, accurate responses.''\<rparr>,
                            \<lparr>role = ''user'', content = pr\<rparr>],
                         ''response_format'' \<mapsto> PResponseFormat ChampionRecommendations_validate]"
    have "trace (snd (main service environ w)) = trace w @ [ClientCreated k, ParseCall ?p]"
      unfolding m by (simp add: try_show_trace [where environ = environ and k = k, OF k] w1)
    moreover have "\<forall>e. service ?p = Inl e \<longrightarrow>
        suffix (error_report e) (stdout (snd (main service environ w)))"
      unfolding m using try_show_error [where environ = environ and k = k, OF k] by blast
    ultimately show ?thesis by blast
  qed
  from ret missing present show ?thesis by blast
qed

theorem main_reports_errors_witness:
  "(\<exists>m. suffix (error_report (ValueError m))
      (stdout (snd (main (\<lambda>p. Inr \<lparr>choices = []\<rparr>) Map.empty
         \<lparr>stdin = [''Garen'', [], [], ''Jinx'', [], ''mid''], stdout = [], trace = []\<rparr>))))
   \<and> suffix (error_report (APIError ''Connection error.''))
      (stdout (snd (main (\<lambda>p. Inl (APIError ''Connection error.'')) [''OPENAI_API_KEY'' \<mapsto> ''sk-1'']
         \<lparr>stdin = [''Garen'', [], [], ''Jinx'', [], ''mid''], stdout = [], trace = []\<rparr>)))"
proof -
  have s: "stdin \<lparr>stdin = [''Garen'', [], [], ''Jinx'', [], ''mid''], stdout = [],
              trace = ([] :: ChampionRecommendations event list)\<rparr>
            = ''Garen'' # [] # [] # ''Jinx'' # [] # ''mid'' # []"
    by simp
  have f: "falsy (Map.empty ''OPENAI_API_KEY'')" and t: "\<not> falsy ([''OPENAI_API_KEY'' \<mapsto> ''sk-1''] ''OPENAI_API_KEY'')"
    by (simp_all add: falsy_def)
  show ?thesis
    using main_reports_errors [OF s, of "\<lambda>p. Inr \<lparr>choices = []\<rparr>" Map.empty]
      main_reports_errors [OF s, of "\<lambda>p. Inl (APIError ''Connection error.'')" "[''OPENAI_API_KEY'' \<mapsto> ''sk-1'']"]
      f t
    by blast
qed



text \<open>
  C4, as stated: with all inputs blank, the target role would be given a default as the
  five champion inputs are. It is not: the stored target role is the empty string.
\<close>

theorem blank_target_role_counterexample:
  "returned_item (fst (get_user_input \<lparr>stdin = [[], [], [], [], [], []], stdout = [],
      trace = ([] :: ChampionRecommendations event list)\<rparr>)) ''your_role'' = Some []"
  by (simp add: get_user_input_six strip_examples returned_item_def)

text \<open>
  C4, amended. When the five champion inputs are blank, each of the five role values is
  the sentinel \<open>Unknown\<close>; the target role has no default, a blank target role is stored
  as the empty string.
\<close>

theorem blank_inputs_default:
  assumes "stdin w = l1 # l2 # l3 # l4 # l5 # l6 # rest"
    and "strip l1 = []" "strip l2 = []" "strip l3 = []" "strip l4 = []" "strip l5 = []"
  shows "\<exists>d w'. get_user_input w = (Inr d, w')
     \<and> d ''top'' = Some ''Unknown'' \<and> d ''jungle'' = Some ''Unknown'' \<and> d ''mid'' = Some ''Unknown''
     \<and> d ''adc'' = Some ''Unknown'' \<and> d ''support'' = Some ''Unknown''
     \<and> (strip l6 = [] \<longrightarrow> d ''your_role'' = Some [])"
  unfolding get_user_input_six [OF assms(1)]
  by (intro exI conjI, rule refl) (simp_all add: assms or_else_def)

theorem blank_inputs_default_witness:
  "\<exists>d w'. get_user_input \<lparr>stdin = [[], ''  '', [], [], [], ''  ''], stdout = [],
                trace = ([] :: ChampionRecommendations event list)\<rparr> = (Inr d, w')
     \<and> d ''top'' = Some ''Unknown'' \<and> d ''jungle'' = Some ''Unknown'' \<and> d ''mid'' = Some ''Unknown''
     \<and> d ''adc'' = Some ''Unknown'' \<and> d ''support'' = Some ''Unknown''
     \<and> d ''your_role'' = Some []"
proof -
  have s: "stdin \<lparr>stdin = [[], ''  '', [], [], [], ''  ''], stdout = [],
              trace = ([] :: ChampionRecommendations event list)\<rparr>
            = [] # ''  '' # [] # [] # [] # ''  '' # []"
    by simp
  show ?thesis
    using blank_inputs_default [OF s strip_examples(3) strip_examples(4) strip_examples(3)
        strip_examples(3) strip_examples(3)] strip_examples(4)
    by blast
qed

section \<open>The prompt builder\<close>






end
